theory Spec2Isabelle
  imports Complex_Main
begin

section \<open>The editor state of \<open>App\<close>\<close>

text \<open>
  The component \<open>App\<close> keeps its state in React \<open>useState\<close> cells. Every handler reads
  the cells of the render it was created in and writes new values through the setters.
  A handler is modelled as a function from the state at the moment it is invoked to the
  state after it has run to completion; an asynchronous handler is one such step, its
  awaited collaborator's outcome being an argument.

  A \<open>File\<close> is the browser's object built by \<open>new File([bits], name, {type})\<close>.
  JavaScript numbers are doubles; the coordinates below are never computed with in the
  handlers modelled here and are carried as reals. The history index is an integer.
\<close>

datatype image_file = File (file_bits: "nat list") (file_name: string) (file_type: string)

datatype point = Point (point_x: real) (point_y: real)

datatype crop_unit = Px | Percent

datatype crop_area =
  CropArea (crop_unit: crop_unit) (crop_x: real) (crop_y: real) (crop_width: real) (crop_height: real)

datatype tab = Retouch | Adjust | Filters | Crop | Templates

datatype export_quality = Low | Medium | High

record app_state =
  history :: "image_file list"
  historyIndex :: int
  prompt :: string
  isLoading :: bool
  error :: "string option"
  editHotspot :: "point option"
  displayHotspot :: "point option"
  activeTab :: tab
  crop :: "crop_area option"
  completedCrop :: "crop_area option"
  aspect :: "real option"
  isComparing :: bool
  exportQuality :: export_quality

text \<open>The initial values given to \<open>useState\<close>.\<close>

definition initial_state :: app_state where
  "initial_state =
     \<lparr> history = [], historyIndex = -1, prompt = [], isLoading = False, error = None,
       editHotspot = None, displayHotspot = None, activeTab = Retouch,
       crop = None, completedCrop = None, aspect = None, isComparing = False,
       exportQuality = High \<rparr>"

subsection \<open>Array primitives of JavaScript\<close>

text \<open>
  \<open>arr[i] ?? null\<close>: an index outside \<open>0 .. length - 1\<close> reads \<open>undefined\<close>, which
  \<open>??\<close> turns into \<open>null\<close>.
\<close>

definition js_index :: "'a list \<Rightarrow> int \<Rightarrow> 'a option" where
  "js_index xs i = (if 0 \<le> i \<and> i < int (length xs) then Some (xs ! nat i) else None)"

text \<open>
  \<open>arr.slice(0, end)\<close>: a negative \<open>end\<close> counts from the end of the array, and the
  result is clamped to the array.
\<close>

definition js_slice0 :: "'a list \<Rightarrow> int \<Rightarrow> 'a list" where
  "js_slice0 xs e =
     (let len = int (length xs);
          final = (if e < 0 then max (len + e) 0 else min e len)
      in take (nat final) xs)"

subsection \<open>Derived values\<close>

definition currentImage :: "app_state \<Rightarrow> image_file option" where
  "currentImage s = js_index (history s) (historyIndex s)"

definition originalImage :: "app_state \<Rightarrow> image_file option" where
  "originalImage s = js_index (history s) 0"

definition canUndo :: "app_state \<Rightarrow> bool" where
  "canUndo s = (historyIndex s > 0)"

definition canRedo :: "app_state \<Rightarrow> bool" where
  "canRedo s = (historyIndex s < int (length (history s)) - 1)"

subsection \<open>The history operations\<close>

definition addImageToHistory :: "image_file \<Rightarrow> app_state \<Rightarrow> app_state" where
  "addImageToHistory newImageFile s =
     (let newHistory = js_slice0 (history s) (historyIndex s + 1) @ [newImageFile]
      in s\<lparr> history := newHistory,
            historyIndex := int (length newHistory) - 1,
            crop := None,
            completedCrop := None \<rparr>)"

definition handleImageUpload :: "image_file \<Rightarrow> app_state \<Rightarrow> app_state" where
  "handleImageUpload f s =
     s\<lparr> error := None,
        history := [f],
        historyIndex := 0,
        editHotspot := None,
        displayHotspot := None,
        activeTab := Retouch,
        crop := None,
        completedCrop := None \<rparr>"

definition handleUndo :: "app_state \<Rightarrow> app_state" where
  "handleUndo s =
     (if canUndo s
      then s\<lparr> historyIndex := historyIndex s - 1, editHotspot := None, displayHotspot := None \<rparr>
      else s)"

definition handleRedo :: "app_state \<Rightarrow> app_state" where
  "handleRedo s =
     (if canRedo s
      then s\<lparr> historyIndex := historyIndex s + 1, editHotspot := None, displayHotspot := None \<rparr>
      else s)"

definition handleReset :: "app_state \<Rightarrow> app_state" where
  "handleReset s =
     (if length (history s) > 0
      then s\<lparr> historyIndex := 0, error := None, editHotspot := None, displayHotspot := None \<rparr>
      else s)"

definition handleUploadNew :: "app_state \<Rightarrow> app_state" where
  "handleUploadNew s =
     s\<lparr> history := [],
        historyIndex := -1,
        error := None,
        prompt := [],
        editHotspot := None,
        displayHotspot := None \<rparr>"

subsection \<open>Strings and thrown values\<close>

text \<open>
  JavaScript strings are modelled as \<open>string\<close>. \<open>s.includes(sub)\<close> (here \<open>js_includes s sub\<close>) tests whether \<open>sub\<close>
  occurs in \<open>s\<close> as a contiguous run; \<open>s.trim()\<close> removes white space and line
  terminators from both ends (of the characters a \<open>char\<close> can hold these are the codes
  9 to 13, 32 and 160).
\<close>

fun startsWith :: "string \<Rightarrow> string \<Rightarrow> bool" where
  "startsWith s [] = True"
| "startsWith [] (p # ps) = False"
| "startsWith (c # cs) (p # ps) = (c = p \<and> startsWith cs ps)"

fun js_includes :: "string \<Rightarrow> string \<Rightarrow> bool" where
  "js_includes [] sub = startsWith [] sub"
| "js_includes (c # cs) sub = (startsWith (c # cs) sub \<or> js_includes cs sub)"

definition is_white_space :: "char \<Rightarrow> bool" where
  "is_white_space c =
     (c \<in> set [CHR 0x09, CHR 0x0A, CHR 0x0B, CHR 0x0C, CHR 0x0D, CHR 0x20, CHR 0xA0])"

definition trim :: "string \<Rightarrow> string" where
  "trim s = rev (dropWhile is_white_space (rev (dropWhile is_white_space s)))"

text \<open>
  A \<open>catch\<close> clause receives a value of type \<open>unknown\<close>: an \<open>Error\<close> with its message, or
  anything else.
\<close>

datatype thrown = Error (message: string) | NonError

definition quota_message :: string where
  "quota_message =
     ''It looks like the AI is a bit busy right now (quota exceeded). Please wait a few moments and try your edit again.''"

definition handleApiError :: "thrown \<Rightarrow> string \<Rightarrow> app_state \<Rightarrow> app_state" where
  "handleApiError err contxt s =
     (let rawErrorMessage = (case err of Error m \<Rightarrow> m | NonError \<Rightarrow> ''An unknown error occurred.'');
          displayErrorMessage =
            (if js_includes rawErrorMessage ''429''
                \<or> js_includes rawErrorMessage ''RESOURCE_EXHAUSTED''
                \<or> js_includes rawErrorMessage ''quota''
             then quota_message
             else ''Failed to '' @ contxt @ ''. '' @ rawErrorMessage)
      in s\<lparr> error := Some displayErrorMessage \<rparr>)"

subsection \<open>The editing flows\<close>

text \<open>
  The three transform flows await the image service and decode its answer with
  \<open>dataURLtoFile\<close> inside one \<open>try\<close> block. The argument \<open>result\<close> is the outcome of that
  block up to the commit: \<open>Inl err\<close> when the service call rejects or the decoding throws
  \<open>err\<close>, \<open>Inr f\<close> when the decoded file is \<open>f\<close>. The \<open>finally\<close> clause runs on both paths.
\<close>

definition handleGenerate :: "thrown + image_file \<Rightarrow> app_state \<Rightarrow> app_state" where
  "handleGenerate result s =
     (if currentImage s = None then s\<lparr> error := Some ''No image loaded to edit.'' \<rparr>
      else if trim (prompt s) = [] then s\<lparr> error := Some ''Please enter a description for your edit.'' \<rparr>
      else if editHotspot s = None
        then s\<lparr> error := Some ''Please click on the image to select an area to edit.'' \<rparr>
      else
        (let s1 = s\<lparr> isLoading := True, error := None \<rparr>;
             s2 = (case result of
                     Inr newImageFile \<Rightarrow>
                       (addImageToHistory newImageFile s1)\<lparr> editHotspot := None, displayHotspot := None \<rparr>
                   | Inl err \<Rightarrow> handleApiError err ''generate the image'' s1)
         in s2\<lparr> isLoading := False \<rparr>))"

definition handleApplyFilter :: "thrown + image_file \<Rightarrow> app_state \<Rightarrow> app_state" where
  "handleApplyFilter result s =
     (if currentImage s = None then s\<lparr> error := Some ''No image loaded to apply a filter to.'' \<rparr>
      else
        (let s1 = s\<lparr> isLoading := True, error := None \<rparr>;
             s2 = (case result of
                     Inr newImageFile \<Rightarrow> addImageToHistory newImageFile s1
                   | Inl err \<Rightarrow> handleApiError err ''apply the filter'' s1)
         in s2\<lparr> isLoading := False \<rparr>))"

definition handleApplyAdjustment :: "thrown + image_file \<Rightarrow> app_state \<Rightarrow> app_state" where
  "handleApplyAdjustment result s =
     (if currentImage s = None then s\<lparr> error := Some ''No image loaded to apply an adjustment to.'' \<rparr>
      else
        (let s1 = s\<lparr> isLoading := True, error := None \<rparr>;
             s2 = (case result of
                     Inr newImageFile \<Rightarrow> addImageToHistory newImageFile s1
                   | Inl err \<Rightarrow> handleApiError err ''apply the adjustment'' s1)
         in s2\<lparr> isLoading := False \<rparr>))"

text \<open>
  The crop flow is synchronous. \<open>imgRef\<close> is \<open>imgRef.current\<close>, \<open>ctx\<close> what
  \<open>canvas.getContext('2d')\<close> returns, and \<open>result\<close> the outcome of decoding the canvas's
  data URL with \<open>dataURLtoFile\<close>. This handler has no \<open>try\<close> block: an exception of the
  decoding leaves the handler (\<open>Inl\<close>), no setter having been called.
\<close>

definition handleApplyCrop ::
  "'img option \<Rightarrow> 'ctx option \<Rightarrow> thrown + image_file \<Rightarrow> app_state \<Rightarrow> thrown + app_state" where
  "handleApplyCrop imgRef ctx result s =
     (if completedCrop s = None \<or> imgRef = None
        then Inr (s\<lparr> error := Some ''Please select an area to crop.'' \<rparr>)
      else if ctx = None then Inr (s\<lparr> error := Some ''Could not process the crop.'' \<rparr>)
      else
        (case result of
           Inl err \<Rightarrow> Inl err
         | Inr newImageFile \<Rightarrow> Inr (addImageToHistory newImageFile s)))"

text \<open>
  The export flow loads the current image into an \<open>Image\<close> element; then either its
  \<open>onload\<close> or its \<open>onerror\<close> callback runs. The file handed to the browser for download
  is no part of the state.
\<close>

datatype image_event = OnLoad | OnError

definition handleDownload :: "image_event \<Rightarrow> 'ctx option \<Rightarrow> app_state \<Rightarrow> app_state" where
  "handleDownload event ctx s =
     (if currentImage s = None then s
      else
        (case event of
           OnLoad \<Rightarrow>
             (if ctx = None then s\<lparr> error := Some ''Could not prepare image for download.'' \<rparr>
              else s)
         | OnError \<Rightarrow> s\<lparr> error := Some ''Could not prepare image for download.'' \<rparr>))"

text \<open>
  Loading a demo image: \<open>fetch\<close> rejects or yields a response; a response that is not
  \<open>ok\<close> is turned into an \<open>Error\<close>; reading the body as a blob may reject as well.
\<close>

datatype blob = Blob (blob_bits: "nat list") (blob_type: string)

datatype response = Response (ok: bool) (statusText: string) (blob: "thrown + blob")

definition handleDemoImageSelect :: "thrown + response \<Rightarrow> app_state \<Rightarrow> app_state" where
  "handleDemoImageSelect fetched s =
     (let s1 = s\<lparr> isLoading := True, error := None \<rparr>;
          s2 = (case fetched of
                  Inl err \<Rightarrow> handleApiError err ''load the demo image'' s1
                | Inr r \<Rightarrow>
                    (if \<not> ok r
                     then handleApiError (Error (''Network response was not ok: '' @ statusText r))
                            ''load the demo image'' s1
                     else
                       (case blob r of
                          Inl err \<Rightarrow> handleApiError err ''load the demo image'' s1
                        | Inr b \<Rightarrow>
                            handleImageUpload
                              (File (blob_bits b) ''demo-image.jpg''
                                 (if blob_type b = [] then ''image/jpeg'' else blob_type b))
                              s1)))
      in s2\<lparr> isLoading := False \<rparr>)"

subsection \<open>Sequences of history operations\<close>

text \<open>
  The six operations of the edit history and the handlers that carry them out:
  reset is \<open>handleImageUpload\<close>, commit is \<open>addImageToHistory\<close>, undo and redo are
  \<open>handleUndo\<close> and \<open>handleRedo\<close>, restart is \<open>handleReset\<close>, clear is \<open>handleUploadNew\<close>.
\<close>

datatype operation = Reset image_file | Commit image_file | Undo | Redo | Restart | Clear

fun apply_op :: "operation \<Rightarrow> app_state \<Rightarrow> app_state" where
  "apply_op (Reset f) s = handleImageUpload f s"
| "apply_op (Commit f) s = addImageToHistory f s"
| "apply_op Undo s = handleUndo s"
| "apply_op Redo s = handleRedo s"
| "apply_op Restart s = handleReset s"
| "apply_op Clear s = handleUploadNew s"

definition run :: "operation list \<Rightarrow> app_state \<Rightarrow> app_state" where
  "run ops s = fold apply_op ops s"

text \<open>The invariant of the cursor.\<close>

definition cursor_inv :: "app_state \<Rightarrow> bool" where
  "cursor_inv s \<longleftrightarrow>
     (history s \<noteq> [] \<longrightarrow> 0 \<le> historyIndex s \<and> historyIndex s < int (length (history s)))
     \<and> (historyIndex s = -1 \<longleftrightarrow> history s = [])"

text \<open>Named images for the examples.\<close>

definition png :: "string \<Rightarrow> image_file" where
  "png n = File [] n ''image/png''"

text \<open>The state of an editing session with history \<open>h\<close> and cursor \<open>c\<close>, all else initial.\<close>

definition editing :: "image_file list \<Rightarrow> int \<Rightarrow> app_state" where
  "editing h c = initial_state\<lparr> history := h, historyIndex := c \<rparr>"

text \<open>The same state with a focus point chosen on the image.\<close>

definition focused :: "app_state \<Rightarrow> app_state" where
  "focused s = s\<lparr> editHotspot := Some (Point 10 20), displayHotspot := Some (Point 5 10) \<rparr>"

text \<open>
  A session ready for any flow: two images with the cursor on the second, a focus point,
  a prompt and a completed crop selection.
\<close>

definition retouch_ready :: app_state where
  "retouch_ready =
     (focused (editing [png ''A'', png ''B''] 1))
       \<lparr> prompt := ''add a hat'', completedCrop := Some (CropArea Px 0 0 10 10) \<rparr>"

text \<open>
  The state after a demo image has failed to load in a fresh session: no history, the
  cursor \<open>-1\<close>, and the error shown.
\<close>

definition demo_load_failed :: app_state where
  "demo_load_failed = handleDemoImageSelect (Inl NonError) initial_state"

subsection \<open>What a recorded failure is\<close>

text \<open>
  A flow started in \<open>s\<close> and ended in \<open>s'\<close> has recorded a failure when the error slot
  of \<open>s'\<close> is filled, history and cursor are those of \<open>s\<close>, the busy flag is not left
  set, and every later sequence of history operations yields the history and cursor it
  would have yielded from \<open>s\<close>.
\<close>

definition failure_recorded :: "app_state \<Rightarrow> app_state \<Rightarrow> bool" where
  "failure_recorded s s' \<longleftrightarrow>
     error s' \<noteq> None
     \<and> history s' = history s
     \<and> historyIndex s' = historyIndex s
     \<and> (isLoading s' \<longrightarrow> isLoading s)
     \<and> (\<forall>ops. history (run ops s') = history (run ops s)
              \<and> historyIndex (run ops s') = historyIndex (run ops s))"

text \<open>
  The demo image fails to load when \<open>fetch\<close> rejects, the response is not \<open>ok\<close>, or
  reading the body rejects.
\<close>

definition demo_load_fails :: "thrown + response \<Rightarrow> bool" where
  "demo_load_fails fetched = (case fetched of Inl err \<Rightarrow> True | Inr r \<Rightarrow> \<not> ok r \<or> isl (blob r))"

section \<open>Committing a revision\<close>

lemma js_slice0_within:
  "0 \<le> e \<Longrightarrow> e \<le> int (length xs) \<Longrightarrow> js_slice0 xs e = take (nat e) xs"
  by (simp add: js_slice0_def Let_def min_def)

lemma commit_index_last:
  "historyIndex (addImageToHistory x s) = int (length (history (addImageToHistory x s))) - 1"
  by (simp add: addImageToHistory_def Let_def)

lemma commit_history_within:
  assumes "0 \<le> historyIndex s" and "historyIndex s < int (length (history s))"
  shows "history (addImageToHistory x s) = take (nat (historyIndex s) + 1) (history s) @ [x]"
proof -
  have "js_slice0 (history s) (historyIndex s + 1) = take (nat (historyIndex s + 1)) (history s)"
    using assms by (intro js_slice0_within) simp_all
  moreover have "nat (historyIndex s + 1) = nat (historyIndex s) + 1"
    using assms(1) by simp
  ultimately show ?thesis
    by (simp add: addImageToHistory_def Let_def)
qed

lemma commit_history_nonempty: "history (addImageToHistory x s) \<noteq> []"
  by (simp add: addImageToHistory_def Let_def)

lemma editing_simps [simp]:
  "history (editing h c) = h" "historyIndex (editing h c) = c"
  by (simp_all add: editing_def)

lemma initial_state_simps [simp]:
  "history initial_state = []" "historyIndex initial_state = -1" "currentImage initial_state = None"
  "completedCrop initial_state = None" "error initial_state = None"
  by (simp_all add: initial_state_def currentImage_def js_index_def)

lemma retouch_ready_simps [simp]:
  "history retouch_ready = [png ''A'', png ''B'']" "historyIndex retouch_ready = 1"
  "currentImage retouch_ready = Some (png ''B'')" "trim (prompt retouch_ready) = ''add a hat''"
  "editHotspot retouch_ready = Some (Point 10 20)" "displayHotspot retouch_ready = Some (Point 5 10)"
  "completedCrop retouch_ready = Some (CropArea Px 0 0 10 10)"
  by (simp_all add: retouch_ready_def editing_def focused_def currentImage_def js_index_def
        trim_def is_white_space_def)

lemma focused_simps [simp]:
  "history (focused s) = history s" "historyIndex (focused s) = historyIndex s"
  "editHotspot (focused s) = Some (Point 10 20)" "displayHotspot (focused s) = Some (Point 5 10)"
  by (simp_all add: focused_def)

text \<open>
  Claim C1. In a state whose history is \<open>[r0 .. r(n-1)]\<close> and whose cursor \<open>c\<close> satisfies
  \<open>0 \<le> c < n\<close>, committing \<open>x\<close> gives the history \<open>[r0 .. rc]\<close> followed by \<open>x\<close>, and
  the cursor \<open>c + 1\<close>, which is the index of the last element: whatever lay beyond the
  cursor (the redo branch) is gone.
\<close>

theorem commit_truncates_and_appends:
  assumes "0 \<le> historyIndex s" and "historyIndex s < int (length (history s))"
  shows "history (addImageToHistory x s) = take (nat (historyIndex s) + 1) (history s) @ [x]
       \<and> historyIndex (addImageToHistory x s) = historyIndex s + 1
       \<and> historyIndex (addImageToHistory x s) = int (length (history (addImageToHistory x s))) - 1"
proof -
  let ?c = "historyIndex s"
  have hist: "history (addImageToHistory x s) = take (nat ?c + 1) (history s) @ [x]"
    using assms by (rule commit_history_within)
  have len: "int (length (take (nat ?c + 1) (history s))) = ?c + 1"
    using assms by (auto simp: min_def)
  have idx: "historyIndex (addImageToHistory x s) = int (length (history (addImageToHistory x s))) - 1"
    by (rule commit_index_last)
  have "historyIndex (addImageToHistory x s) = ?c + 1"
    unfolding idx hist using len by simp
  with hist idx show ?thesis by simp
qed

text \<open>
  The example of the specification: with the history \<open>[A, B, C]\<close> and the cursor at 0 (after
  two undos), committing \<open>D\<close> gives the history \<open>[A, D]\<close> and the cursor 1.
\<close>

theorem commit_truncates_and_appends_witness:
  "0 \<le> historyIndex (editing [png ''A'', png ''B'', png ''C''] 0)
   \<and> historyIndex (editing [png ''A'', png ''B'', png ''C''] 0)
       < int (length (history (editing [png ''A'', png ''B'', png ''C''] 0)))
   \<and> history (addImageToHistory (png ''D'') (editing [png ''A'', png ''B'', png ''C''] 0))
       = [png ''A'', png ''D'']
   \<and> historyIndex (addImageToHistory (png ''D'') (editing [png ''A'', png ''B'', png ''C''] 0)) = 1"
  using commit_truncates_and_appends [of "editing [png ''A'', png ''B'', png ''C''] 0" "png ''D''"]
  by simp

section \<open>The invariant of the cursor\<close>

lemma commit_preserves_inv: "cursor_inv (addImageToHistory x s)"
proof -
  have ne: "history (addImageToHistory x s) \<noteq> []"
    by (rule commit_history_nonempty)
  then have "0 < length (history (addImageToHistory x s))"
    by simp
  then show ?thesis
    unfolding cursor_inv_def using ne commit_index_last [of x s] by auto
qed

lemma reset_preserves_inv: "cursor_inv (handleImageUpload f s)"
  by (simp add: cursor_inv_def handleImageUpload_def)

lemma undo_preserves_inv: "cursor_inv s \<Longrightarrow> cursor_inv (handleUndo s)"
  by (auto simp: cursor_inv_def handleUndo_def canUndo_def)

lemma redo_preserves_inv: "cursor_inv s \<Longrightarrow> cursor_inv (handleRedo s)"
  by (auto simp: cursor_inv_def handleRedo_def canRedo_def)

lemma restart_preserves_inv: "cursor_inv s \<Longrightarrow> cursor_inv (handleReset s)"
  by (auto simp: cursor_inv_def handleReset_def)

lemma clear_preserves_inv: "cursor_inv (handleUploadNew s)"
  by (simp add: cursor_inv_def handleUploadNew_def)

lemma apply_op_preserves_inv: "cursor_inv s \<Longrightarrow> cursor_inv (apply_op x s)"
  by (cases x)
     (simp_all add: commit_preserves_inv reset_preserves_inv undo_preserves_inv
        redo_preserves_inv restart_preserves_inv clear_preserves_inv)

lemma fold_preserves_inv: "cursor_inv s \<Longrightarrow> cursor_inv (fold apply_op ops s)"
  by (induction ops arbitrary: s) (simp_all add: apply_op_preserves_inv)

lemma initial_inv: "cursor_inv initial_state"
  by (simp add: cursor_inv_def initial_state_def)

text \<open>
  Claim C2. After any sequence of the operations reset, commit, undo, redo, restart and
  clear, run from the initial empty state, the cursor lies in \<open>0 .. length - 1\<close> whenever
  the history is not empty, and the cursor is \<open>-1\<close> exactly when the history is empty.
\<close>

theorem cursor_invariant:
  "(history (run ops initial_state) \<noteq> [] \<longrightarrow>
      0 \<le> historyIndex (run ops initial_state)
      \<and> historyIndex (run ops initial_state) < int (length (history (run ops initial_state))))
   \<and> (historyIndex (run ops initial_state) = -1 \<longleftrightarrow> history (run ops initial_state) = [])"
proof -
  have "cursor_inv (run ops initial_state)"
    unfolding run_def by (rule fold_preserves_inv [OF initial_inv])
  then show ?thesis
    by (simp add: cursor_inv_def)
qed

text \<open>
  One run ends with a history of three images and the cursor inside it, another ends
  with the empty history and the cursor \<open>-1\<close>.
\<close>

theorem cursor_invariant_witness:
  "history (run [Reset (png ''A''), Commit (png ''B''), Commit (png ''C''), Undo, Redo, Restart] initial_state) \<noteq> []
   \<and> 0 \<le> historyIndex (run [Reset (png ''A''), Commit (png ''B''), Commit (png ''C''), Undo, Redo, Restart] initial_state)
   \<and> historyIndex (run [Reset (png ''A''), Commit (png ''B''), Commit (png ''C''), Undo, Redo, Restart] initial_state)
       < int (length (history (run [Reset (png ''A''), Commit (png ''B''), Commit (png ''C''), Undo, Redo, Restart] initial_state)))
   \<and> history (run [Reset (png ''A''), Commit (png ''B''), Clear] initial_state) = []
   \<and> historyIndex (run [Reset (png ''A''), Commit (png ''B''), Clear] initial_state) = -1"
proof -
  have ne: "history (run [Reset (png ''A''), Commit (png ''B''), Commit (png ''C''), Undo, Redo, Restart] initial_state)
              = [png ''A'', png ''B'', png ''C'']"
    by (simp add: run_def handleReset_def handleRedo_def handleUndo_def canUndo_def canRedo_def
          addImageToHistory_def js_slice0_def handleImageUpload_def initial_state_def)
  have em: "history (run [Reset (png ''A''), Commit (png ''B''), Clear] initial_state) = []"
    by (simp add: run_def handleUploadNew_def)
  show ?thesis
    using ne em
      cursor_invariant [of "[Reset (png ''A''), Commit (png ''B''), Commit (png ''C''), Undo, Redo, Restart]"]
      cursor_invariant [of "[Reset (png ''A''), Commit (png ''B''), Clear]"]
    by simp
qed

section \<open>Moving the cursor\<close>

text \<open>
  Claim C3. Undo changes nothing when the cursor is at most 0; otherwise it lowers the
  cursor by exactly 1 and clears the focus point (both hotspots), touching nothing else.
  Redo changes nothing when the cursor is at least \<open>length - 1\<close>; otherwise it raises the
  cursor by exactly 1 and clears the focus point. Neither changes the history.
\<close>

theorem undo_redo_move_cursor_only:
  "(historyIndex s \<le> 0 \<longrightarrow> handleUndo s = s)
   \<and> (0 < historyIndex s \<longrightarrow>
        handleUndo s = s\<lparr> historyIndex := historyIndex s - 1, editHotspot := None, displayHotspot := None \<rparr>)
   \<and> (int (length (history s)) - 1 \<le> historyIndex s \<longrightarrow> handleRedo s = s)
   \<and> (historyIndex s < int (length (history s)) - 1 \<longrightarrow>
        handleRedo s = s\<lparr> historyIndex := historyIndex s + 1, editHotspot := None, displayHotspot := None \<rparr>)
   \<and> history (handleUndo s) = history s
   \<and> history (handleRedo s) = history s"
  by (simp add: handleUndo_def handleRedo_def canUndo_def canRedo_def)

text \<open>
  With three images and a focus point set: at cursor 0 undo does nothing, at cursor 1
  undo gives 0 and redo gives 2, each clearing the focus point, at cursor 2 redo does
  nothing.
\<close>

theorem undo_redo_move_cursor_only_witness:
  "historyIndex (focused (editing [png ''A'', png ''B'', png ''C''] 0)) \<le> 0
   \<and> handleUndo (focused (editing [png ''A'', png ''B'', png ''C''] 0))
       = focused (editing [png ''A'', png ''B'', png ''C''] 0)
   \<and> 0 < historyIndex (focused (editing [png ''A'', png ''B'', png ''C''] 1))
   \<and> historyIndex (handleUndo (focused (editing [png ''A'', png ''B'', png ''C''] 1))) = 0
   \<and> editHotspot (handleUndo (focused (editing [png ''A'', png ''B'', png ''C''] 1))) = None
   \<and> displayHotspot (handleUndo (focused (editing [png ''A'', png ''B'', png ''C''] 1))) = None
   \<and> historyIndex (focused (editing [png ''A'', png ''B'', png ''C''] 1))
       < int (length (history (focused (editing [png ''A'', png ''B'', png ''C''] 1)))) - 1
   \<and> historyIndex (handleRedo (focused (editing [png ''A'', png ''B'', png ''C''] 1))) = 2
   \<and> editHotspot (handleRedo (focused (editing [png ''A'', png ''B'', png ''C''] 1))) = None
   \<and> displayHotspot (handleRedo (focused (editing [png ''A'', png ''B'', png ''C''] 1))) = None
   \<and> int (length (history (focused (editing [png ''A'', png ''B'', png ''C''] 2)))) - 1
       \<le> historyIndex (focused (editing [png ''A'', png ''B'', png ''C''] 2))
   \<and> handleRedo (focused (editing [png ''A'', png ''B'', png ''C''] 2))
       = focused (editing [png ''A'', png ''B'', png ''C''] 2)"
  using undo_redo_move_cursor_only [of "focused (editing [png ''A'', png ''B'', png ''C''] 0)"]
        undo_redo_move_cursor_only [of "focused (editing [png ''A'', png ''B'', png ''C''] 1)"]
        undo_redo_move_cursor_only [of "focused (editing [png ''A'', png ''B'', png ''C''] 2)"]
  by simp

section \<open>Reset, clear and restart\<close>

text \<open>
  Claim C4. Whatever the state before, loading an image \<open>X\<close> (reset) leaves the history
  \<open>[X]\<close> and the cursor 0, and clears the focus point.
\<close>

theorem reset_replaces_history:
  "history (handleImageUpload X s) = [X]
   \<and> historyIndex (handleImageUpload X s) = 0
   \<and> editHotspot (handleImageUpload X s) = None
   \<and> displayHotspot (handleImageUpload X s) = None"
  by (simp add: handleImageUpload_def)

text \<open>
  Claim C5. Whatever the state before, clear leaves the history empty and the cursor
  \<open>-1\<close>, and clears the prompt text and the focus point.
\<close>

theorem clear_empties_history:
  "history (handleUploadNew s) = []
   \<and> historyIndex (handleUploadNew s) = -1
   \<and> prompt (handleUploadNew s) = []
   \<and> editHotspot (handleUploadNew s) = None
   \<and> displayHotspot (handleUploadNew s) = None"
  by (simp add: handleUploadNew_def)

text \<open>
  Claim C6. With a history that is not empty, restart sets the cursor to 0, leaves the
  history as it is, and clears the error and the focus point; with the empty history it
  changes nothing.
\<close>

theorem restart_moves_cursor_to_start:
  "(history s \<noteq> [] \<longrightarrow>
      historyIndex (handleReset s) = 0
      \<and> history (handleReset s) = history s
      \<and> error (handleReset s) = None
      \<and> editHotspot (handleReset s) = None
      \<and> displayHotspot (handleReset s) = None)
   \<and> (history s = [] \<longrightarrow> handleReset s = s)"
  by (simp add: handleReset_def)

text \<open>
  Restart at cursor 2 of three images, with an error shown and a focus point set; and
  restart on an empty history.
\<close>

theorem restart_moves_cursor_to_start_witness:
  "history ((focused (editing [png ''A'', png ''B'', png ''C''] 2))\<lparr> error := Some ''Could not process the crop.'' \<rparr>) \<noteq> []
   \<and> historyIndex (handleReset ((focused (editing [png ''A'', png ''B'', png ''C''] 2))\<lparr> error := Some ''Could not process the crop.'' \<rparr>)) = 0
   \<and> history (handleReset ((focused (editing [png ''A'', png ''B'', png ''C''] 2))\<lparr> error := Some ''Could not process the crop.'' \<rparr>))
       = [png ''A'', png ''B'', png ''C'']
   \<and> error (handleReset ((focused (editing [png ''A'', png ''B'', png ''C''] 2))\<lparr> error := Some ''Could not process the crop.'' \<rparr>)) = None
   \<and> editHotspot (handleReset ((focused (editing [png ''A'', png ''B'', png ''C''] 2))\<lparr> error := Some ''Could not process the crop.'' \<rparr>)) = None
   \<and> displayHotspot (handleReset ((focused (editing [png ''A'', png ''B'', png ''C''] 2))\<lparr> error := Some ''Could not process the crop.'' \<rparr>)) = None
   \<and> history (focused initial_state) = []
   \<and> handleReset (focused initial_state) = focused initial_state"
  using restart_moves_cursor_to_start
          [of "(focused (editing [png ''A'', png ''B'', png ''C''] 2))\<lparr> error := Some ''Could not process the crop.'' \<rparr>"]
        restart_moves_cursor_to_start [of "focused initial_state"]
  by (simp add: initial_state_def)

section \<open>What a commit clears\<close>

text \<open>
  \<open>addImageToHistory\<close> clears the crop selection, in progress and completed, and leaves
  both hotspots as they are. Of the four flows that commit, only the retouch flow clears
  the hotspots itself, after the commit.
\<close>

lemma commit_transient_state:
  "crop (addImageToHistory x s) = None \<and> completedCrop (addImageToHistory x s) = None
   \<and> editHotspot (addImageToHistory x s) = editHotspot s
   \<and> displayHotspot (addImageToHistory x s) = displayHotspot s"
  by (simp add: addImageToHistory_def Let_def)

lemma retouch_commit_clears_focus_point:
  assumes "currentImage s \<noteq> None" and "trim (prompt s) \<noteq> []" and "editHotspot s \<noteq> None"
  shows "editHotspot (handleGenerate (Inr f) s) = None
       \<and> displayHotspot (handleGenerate (Inr f) s) = None
       \<and> crop (handleGenerate (Inr f) s) = None
       \<and> completedCrop (handleGenerate (Inr f) s) = None"
  using assms by (auto simp: handleGenerate_def Let_def addImageToHistory_def)

text \<open>
  Claim C7. Every commit, whichever flow produced it, is claimed to clear the crop
  selection and the focus point. In the ready session (two images, cursor 1, a focus
  point and a crop selection) the filter flow, the adjustment flow and the crop flow
  each commit a third image and leave the focus point where it was; the crop selection
  is cleared.
\<close>

theorem commit_keeps_focus_point:
  "history (handleApplyFilter (Inr (png ''C'')) retouch_ready) = [png ''A'', png ''B'', png ''C'']
   \<and> historyIndex (handleApplyFilter (Inr (png ''C'')) retouch_ready) = 2
   \<and> editHotspot (handleApplyFilter (Inr (png ''C'')) retouch_ready) = Some (Point 10 20)
   \<and> displayHotspot (handleApplyFilter (Inr (png ''C'')) retouch_ready) = Some (Point 5 10)
   \<and> history (handleApplyAdjustment (Inr (png ''C'')) retouch_ready) = [png ''A'', png ''B'', png ''C'']
   \<and> historyIndex (handleApplyAdjustment (Inr (png ''C'')) retouch_ready) = 2
   \<and> editHotspot (handleApplyAdjustment (Inr (png ''C'')) retouch_ready) = Some (Point 10 20)
   \<and> displayHotspot (handleApplyAdjustment (Inr (png ''C'')) retouch_ready) = Some (Point 5 10)
   \<and> handleApplyCrop (Some ()) (Some ()) (Inr (png ''C'')) retouch_ready
       = Inr (addImageToHistory (png ''C'') retouch_ready)
   \<and> history (addImageToHistory (png ''C'') retouch_ready) = [png ''A'', png ''B'', png ''C'']
   \<and> historyIndex (addImageToHistory (png ''C'') retouch_ready) = 2
   \<and> completedCrop (addImageToHistory (png ''C'') retouch_ready) = None
   \<and> editHotspot (addImageToHistory (png ''C'') retouch_ready) = Some (Point 10 20)
   \<and> displayHotspot (addImageToHistory (png ''C'') retouch_ready) = Some (Point 5 10)"
  by (simp add: handleApplyFilter_def handleApplyAdjustment_def handleApplyCrop_def
        addImageToHistory_def js_slice0_def Let_def)

section \<open>Failing flows\<close>

lemma apply_op_same_timeline:
  assumes "history s' = history s" and "historyIndex s' = historyIndex s"
  shows "history (apply_op x s') = history (apply_op x s)
       \<and> historyIndex (apply_op x s') = historyIndex (apply_op x s)"
  using assms
  by (cases x)
     (simp_all add: handleImageUpload_def addImageToHistory_def Let_def handleUndo_def
        handleRedo_def handleReset_def handleUploadNew_def canUndo_def canRedo_def)

lemma fold_same_timeline:
  "history s' = history s \<Longrightarrow> historyIndex s' = historyIndex s \<Longrightarrow>
   history (fold apply_op ops s') = history (fold apply_op ops s)
   \<and> historyIndex (fold apply_op ops s') = historyIndex (fold apply_op ops s)"
proof (induction ops arbitrary: s s')
  case Nil
  then show ?case by simp
next
  case (Cons x ops)
  have "history (apply_op x s') = history (apply_op x s)"
    and "historyIndex (apply_op x s') = historyIndex (apply_op x s)"
    using apply_op_same_timeline [OF Cons.prems] by simp_all
  then show ?case
    using Cons.IH [of "apply_op x s'" "apply_op x s"] by simp
qed

lemma failure_recordedI:
  assumes "error s' \<noteq> None" and "history s' = history s" and "historyIndex s' = historyIndex s"
    and "isLoading s' \<longrightarrow> isLoading s"
  shows "failure_recorded s s'"
  unfolding failure_recorded_def run_def
  using assms fold_same_timeline [OF assms(2,3)] by blast

lemma handleApiError_fields:
  "\<exists>m. error (handleApiError err c s) = Some m"
  "history (handleApiError err c s) = history s"
  "historyIndex (handleApiError err c s) = historyIndex s"
  "isLoading (handleApiError err c s) = isLoading s"
  by (simp_all add: handleApiError_def Let_def)

lemma generate_failure:
  assumes "currentImage s = None \<or> trim (prompt s) = [] \<or> editHotspot s = None \<or> isl result"
  shows "failure_recorded s (handleGenerate result s)"
proof (rule failure_recordedI)
  show "error (handleGenerate result s) \<noteq> None"
    using assms by (auto simp: handleGenerate_def Let_def handleApiError_fields isl_def)
  show "history (handleGenerate result s) = history s"
    using assms by (auto simp: handleGenerate_def Let_def handleApiError_fields isl_def)
  show "historyIndex (handleGenerate result s) = historyIndex s"
    using assms by (auto simp: handleGenerate_def Let_def handleApiError_fields isl_def)
  show "isLoading (handleGenerate result s) \<longrightarrow> isLoading s"
    by (simp add: handleGenerate_def Let_def)
qed

lemma filter_failure:
  assumes "currentImage s = None \<or> isl result"
  shows "failure_recorded s (handleApplyFilter result s)"
proof (rule failure_recordedI)
  show "error (handleApplyFilter result s) \<noteq> None"
    using assms by (auto simp: handleApplyFilter_def Let_def handleApiError_fields isl_def)
  show "history (handleApplyFilter result s) = history s"
    using assms by (auto simp: handleApplyFilter_def Let_def handleApiError_fields isl_def)
  show "historyIndex (handleApplyFilter result s) = historyIndex s"
    using assms by (auto simp: handleApplyFilter_def Let_def handleApiError_fields isl_def)
  show "isLoading (handleApplyFilter result s) \<longrightarrow> isLoading s"
    by (simp add: handleApplyFilter_def Let_def)
qed

lemma adjustment_failure:
  assumes "currentImage s = None \<or> isl result"
  shows "failure_recorded s (handleApplyAdjustment result s)"
proof (rule failure_recordedI)
  show "error (handleApplyAdjustment result s) \<noteq> None"
    using assms by (auto simp: handleApplyAdjustment_def Let_def handleApiError_fields isl_def)
  show "history (handleApplyAdjustment result s) = history s"
    using assms by (auto simp: handleApplyAdjustment_def Let_def handleApiError_fields isl_def)
  show "historyIndex (handleApplyAdjustment result s) = historyIndex s"
    using assms by (auto simp: handleApplyAdjustment_def Let_def handleApiError_fields isl_def)
  show "isLoading (handleApplyAdjustment result s) \<longrightarrow> isLoading s"
    by (simp add: handleApplyAdjustment_def Let_def)
qed

lemma crop_failure:
  assumes "completedCrop s = None \<or> imgRef = None \<or> ctx = None"
  shows "\<exists>s'. handleApplyCrop imgRef ctx result s = Inr s' \<and> failure_recorded s s'"
proof -
  have "\<exists>msg. handleApplyCrop imgRef ctx result s = Inr (s\<lparr> error := Some msg \<rparr>)"
    using assms by (auto simp: handleApplyCrop_def)
  then obtain msg where "handleApplyCrop imgRef ctx result s = Inr (s\<lparr> error := Some msg \<rparr>)"
    by blast
  moreover have "failure_recorded s (s\<lparr> error := Some msg \<rparr>)"
    by (rule failure_recordedI) simp_all
  ultimately show ?thesis by blast
qed

lemma download_failure:
  assumes "currentImage s \<noteq> None" and "event = OnError \<or> ctx = None"
  shows "failure_recorded s (handleDownload event ctx s)"
proof -
  have "handleDownload event ctx s = s\<lparr> error := Some ''Could not prepare image for download.'' \<rparr>"
    using assms by (auto simp: handleDownload_def split: image_event.splits)
  moreover have "failure_recorded s (s\<lparr> error := Some ''Could not prepare image for download.'' \<rparr>)"
    by (rule failure_recordedI) simp_all
  ultimately show ?thesis by simp
qed

lemma export_no_image_noop: "currentImage s = None \<Longrightarrow> handleDownload event ctx s = s"
  by (simp add: handleDownload_def)

lemma demo_failure:
  assumes "demo_load_fails fetched"
  shows "failure_recorded s (handleDemoImageSelect fetched s)"
proof (rule failure_recordedI)
  show "error (handleDemoImageSelect fetched s) \<noteq> None"
    using assms
    by (auto simp: handleDemoImageSelect_def demo_load_fails_def Let_def handleApiError_fields isl_def
             split: sum.splits)
  show "history (handleDemoImageSelect fetched s) = history s"
    using assms
    by (auto simp: handleDemoImageSelect_def demo_load_fails_def Let_def handleApiError_fields isl_def
             split: sum.splits)
  show "historyIndex (handleDemoImageSelect fetched s) = historyIndex s"
    using assms
    by (auto simp: handleDemoImageSelect_def demo_load_fails_def Let_def handleApiError_fields isl_def
             split: sum.splits)
  show "isLoading (handleDemoImageSelect fetched s) \<longrightarrow> isLoading s"
    by (simp add: handleDemoImageSelect_def Let_def)
qed

text \<open>
  Claim C8, as the code has it. Every failure that a handler detects is recorded: a
  missing image, a blank prompt, a missing focus point or a failed transform in the
  retouch flow; a missing image or a failed transform in the filter and adjustment
  flows; a missing crop selection, image element or drawing context in the crop flow;
  an image that does not load or a missing drawing context in the export flow; a demo
  image that does not load. The export flow started with no image loaded returns at
  once and changes nothing, the error slot included.
\<close>

theorem detected_failure_keeps_history:
  "(currentImage s = None \<or> trim (prompt s) = [] \<or> editHotspot s = None \<or> isl result \<longrightarrow>
      failure_recorded s (handleGenerate result s))
   \<and> (currentImage s = None \<or> isl result \<longrightarrow> failure_recorded s (handleApplyFilter result s))
   \<and> (currentImage s = None \<or> isl result \<longrightarrow> failure_recorded s (handleApplyAdjustment result s))
   \<and> (completedCrop s = None \<or> imgRef = None \<or> ctx = None \<longrightarrow>
        (\<exists>s'. handleApplyCrop imgRef ctx result s = Inr s' \<and> failure_recorded s s'))
   \<and> (currentImage s \<noteq> None \<and> (event = OnError \<or> ctx' = None) \<longrightarrow>
        failure_recorded s (handleDownload event ctx' s))
   \<and> (currentImage s = None \<longrightarrow> handleDownload event ctx' s = s)
   \<and> (demo_load_fails fetched \<longrightarrow> failure_recorded s (handleDemoImageSelect fetched s))"
  using generate_failure [of s result] filter_failure [of s result] adjustment_failure [of s result]
    crop_failure [of s imgRef ctx result] download_failure [of s event ctx']
    export_no_image_noop [of s event ctx'] demo_failure [of fetched s]
  by blast

text \<open>
  In the ready session each flow fails through its collaborator and is recorded with
  the history \<open>[A, B]\<close> and the cursor 1 kept; in the initial state the retouch flow
  fails for want of an image, and the export flow returns the state unchanged.
\<close>

theorem detected_failure_keeps_history_witness:
  "(currentImage retouch_ready \<noteq> None \<and> trim (prompt retouch_ready) \<noteq> []
      \<and> editHotspot retouch_ready \<noteq> None \<and> isl (Inl (Error ''HTTP 500'') :: thrown + image_file))
   \<and> error (handleGenerate (Inl (Error ''HTTP 500'')) retouch_ready) \<noteq> None
   \<and> history (handleGenerate (Inl (Error ''HTTP 500'')) retouch_ready) = [png ''A'', png ''B'']
   \<and> historyIndex (handleGenerate (Inl (Error ''HTTP 500'')) retouch_ready) = 1
   \<and> error (handleApplyFilter (Inl (Error ''HTTP 500'')) retouch_ready) \<noteq> None
   \<and> history (handleApplyFilter (Inl (Error ''HTTP 500'')) retouch_ready) = [png ''A'', png ''B'']
   \<and> historyIndex (handleApplyFilter (Inl (Error ''HTTP 500'')) retouch_ready) = 1
   \<and> error (handleApplyAdjustment (Inl (Error ''HTTP 500'')) retouch_ready) \<noteq> None
   \<and> history (handleApplyAdjustment (Inl (Error ''HTTP 500'')) retouch_ready) = [png ''A'', png ''B'']
   \<and> historyIndex (handleApplyAdjustment (Inl (Error ''HTTP 500'')) retouch_ready) = 1
   \<and> (\<exists>s'. handleApplyCrop (Some ()) (None :: unit option) (Inl (Error ''HTTP 500'')) retouch_ready = Inr s'
          \<and> error s' \<noteq> None \<and> history s' = [png ''A'', png ''B''] \<and> historyIndex s' = 1)
   \<and> error (handleDownload OnError (Some ()) retouch_ready) \<noteq> None
   \<and> history (handleDownload OnError (Some ()) retouch_ready) = [png ''A'', png ''B'']
   \<and> historyIndex (handleDownload OnError (Some ()) retouch_ready) = 1
   \<and> demo_load_fails (Inr (Response False ''Not Found'' (Inr (Blob [] ''text/html''))))
   \<and> error (handleDemoImageSelect (Inr (Response False ''Not Found'' (Inr (Blob [] ''text/html'')))) retouch_ready)
        \<noteq> None
   \<and> history (handleDemoImageSelect (Inr (Response False ''Not Found'' (Inr (Blob [] ''text/html'')))) retouch_ready)
        = [png ''A'', png ''B'']
   \<and> currentImage initial_state = None
   \<and> error (handleGenerate (Inr (png ''C'')) initial_state) \<noteq> None
   \<and> history (handleGenerate (Inr (png ''C'')) initial_state) = []
   \<and> historyIndex (handleGenerate (Inr (png ''C'')) initial_state) = -1
   \<and> handleDownload OnLoad (Some ()) initial_state = initial_state"
proof -
  let ?e = "Inl (Error ''HTTP 500'') :: thrown + image_file"
  let ?r = "Inr (Response False ''Not Found'' (Inr (Blob [] ''text/html''))) :: thrown + response"
  have fails: "demo_load_fails ?r"
    by (simp add: demo_load_fails_def)
  note busy = detected_failure_keeps_history
                [of retouch_ready ?e "Some ()" "None :: unit option" OnError "Some ()" ?r]
  note empty = detected_failure_keeps_history
                 [of initial_state "Inr (png ''C'')" "None :: unit option" "None :: unit option"
                     OnLoad "Some ()" "Inl NonError"]
  have generate: "failure_recorded retouch_ready (handleGenerate ?e retouch_ready)"
    using busy by simp
  have filter: "failure_recorded retouch_ready (handleApplyFilter ?e retouch_ready)"
    using busy by simp
  have adjust: "failure_recorded retouch_ready (handleApplyAdjustment ?e retouch_ready)"
    using busy by simp
  have "\<exists>s'. handleApplyCrop (Some ()) (None :: unit option) ?e retouch_ready = Inr s'
            \<and> failure_recorded retouch_ready s'"
    using busy by simp
  then have crop: "\<exists>s'. handleApplyCrop (Some ()) (None :: unit option) ?e retouch_ready = Inr s'
            \<and> error s' \<noteq> None \<and> history s' = [png ''A'', png ''B''] \<and> historyIndex s' = 1"
    by (auto simp: failure_recorded_def)
  have download: "failure_recorded retouch_ready (handleDownload OnError (Some ()) retouch_ready)"
    using busy by simp
  have demo: "failure_recorded retouch_ready (handleDemoImageSelect ?r retouch_ready)"
    using busy fails by simp
  have no_image: "failure_recorded initial_state (handleGenerate (Inr (png ''C'')) initial_state)"
    using empty by simp
  have silent: "handleDownload OnLoad (Some ()) initial_state = initial_state"
    using empty by simp
  show ?thesis
    using generate filter adjust crop download demo no_image silent fails
    by (simp add: failure_recorded_def)
qed

text \<open>
  The claim as stated includes the missing image among the failures that fill the error
  slot: the export flow in the initial state has no image and leaves the slot empty.
\<close>

theorem download_without_image_sets_no_error:
  "currentImage initial_state = None
   \<and> error (handleDownload OnLoad (Some ()) initial_state) = None"
  by (simp add: handleDownload_def currentImage_def js_index_def initial_state_def)

section \<open>Classifying a failure of the image service\<close>

text \<open>\<open>js_includes s sub\<close> holds exactly when \<open>sub\<close> occurs in \<open>s\<close>.\<close>

lemma startsWith_iff: "startsWith s sub \<longleftrightarrow> (\<exists>ss. s = sub @ ss)"
  by (induction s sub rule: startsWith.induct) auto

lemma js_includes_iff: "js_includes s sub \<longleftrightarrow> (\<exists>ps ss. s = ps @ sub @ ss)"
proof (induction s)
  case Nil
  then show ?case by (simp add: startsWith_iff)
next
  case (Cons c cs)
  show ?case
  proof
    assume "js_includes (c # cs) sub"
    then consider "startsWith (c # cs) sub" | "js_includes cs sub" by auto
    then show "\<exists>ps ss. c # cs = ps @ sub @ ss"
    proof cases
      case 1
      then obtain ss where "c # cs = sub @ ss" by (auto simp: startsWith_iff)
      then have "c # cs = [] @ sub @ ss" by simp
      then show ?thesis by blast
    next
      case 2
      then obtain ps ss where "cs = ps @ sub @ ss" using Cons.IH by blast
      then have "c # cs = (c # ps) @ sub @ ss" by simp
      then show ?thesis by blast
    qed
  next
    assume "\<exists>ps ss. c # cs = ps @ sub @ ss"
    then obtain ps ss where eq: "c # cs = ps @ sub @ ss" by blast
    show "js_includes (c # cs) sub"
    proof (cases ps)
      case Nil
      with eq have "startsWith (c # cs) sub" by (auto simp: startsWith_iff)
      then show ?thesis by simp
    next
      case (Cons p ps')
      with eq have "cs = ps' @ sub @ ss" by simp
      then have "js_includes cs sub" using Cons.IH by blast
      then show ?thesis by simp
    qed
  qed
qed

text \<open>
  Claim C9, as the code has it. The message of a failure is replaced by the
  quota-exceeded message exactly when it contains one of the three markers \<open>429\<close>,
  \<open>RESOURCE_EXHAUSTED\<close> and \<open>quota\<close>; a message with none of them is shown as
  \<open>Failed to <context>. <message>\<close>, and so is a thrown value that is no \<open>Error\<close>, with
  the message \<open>An unknown error occurred.\<close>
\<close>

theorem rate_limit_markers:
  "(error (handleApiError (Error m) c s) = Some quota_message \<longleftrightarrow>
      js_includes m ''429'' \<or> js_includes m ''RESOURCE_EXHAUSTED'' \<or> js_includes m ''quota'')
   \<and> (\<not> (js_includes m ''429'' \<or> js_includes m ''RESOURCE_EXHAUSTED'' \<or> js_includes m ''quota'') \<longrightarrow>
        error (handleApiError (Error m) c s) = Some (''Failed to '' @ c @ ''. '' @ m))
   \<and> error (handleApiError NonError c s) = Some (''Failed to '' @ c @ ''. An unknown error occurred.'')"
  by (simp add: handleApiError_def quota_message_def)

text \<open>
  Two rate-limited messages and one that is not.
\<close>

theorem rate_limit_markers_witness:
  "error (handleApiError (Error ''HTTP 429 Too Many Requests'') ''apply the filter'' initial_state)
     = Some quota_message
   \<and> error (handleApiError (Error ''You exceeded your current quota'') ''apply the filter'' initial_state)
     = Some quota_message
   \<and> \<not> (js_includes ''Network down'' ''429'' \<or> js_includes ''Network down'' ''RESOURCE_EXHAUSTED''
        \<or> js_includes ''Network down'' ''quota'')
   \<and> error (handleApiError (Error ''Network down'') ''apply the filter'' initial_state)
     = Some ''Failed to apply the filter. Network down''"
  using rate_limit_markers [of "''HTTP 429 Too Many Requests''" "''apply the filter''" initial_state]
        rate_limit_markers [of "''You exceeded your current quota''" "''apply the filter''" initial_state]
        rate_limit_markers [of "''Network down''" "''apply the filter''" initial_state]
  by simp

text \<open>
  The claim as stated classifies a message with neither \<open>429\<close> nor \<open>quota\<close> as "other":
  the message \<open>RESOURCE_EXHAUSTED\<close> has neither and is shown as quota exceeded.
\<close>

theorem resource_exhausted_is_rate_limited:
  "\<not> js_includes ''RESOURCE_EXHAUSTED'' ''429''
   \<and> \<not> js_includes ''RESOURCE_EXHAUSTED'' ''quota''
   \<and> error (handleApiError (Error ''RESOURCE_EXHAUSTED'') ''apply the filter'' initial_state)
       = Some quota_message"
  by (simp add: handleApiError_def)

section \<open>Committing with no image loaded\<close>

lemma demo_load_failed_simps [simp]:
  "history demo_load_failed = []" "historyIndex demo_load_failed = -1"
  "error demo_load_failed = Some ''Failed to load the demo image. An unknown error occurred.''"
  by (simp_all add: demo_load_failed_def handleDemoImageSelect_def handleApiError_def Let_def
        initial_state_def)

text \<open>
  Claim C10, as the code has it. On the empty state (no history, cursor \<open>-1\<close>)
  \<open>addImageToHistory\<close> does not fail: it yields the history \<open>[x]\<close> and the cursor 0, the
  history and cursor that loading \<open>x\<close> yields, and clears the crop selection as loading
  does. It is the state that loading \<open>x\<close> yields except for the error, the two hotspots
  and the active tab, which the commit leaves as they were. The guard against a missing
  image is in the callers: the retouch, filter and adjustment flows report the missing
  image and commit nothing.
\<close>

theorem commit_on_empty_history:
  assumes "history s = []" and "historyIndex s = -1"
  shows "history (addImageToHistory x s) = [x]
       \<and> historyIndex (addImageToHistory x s) = 0
       \<and> history (addImageToHistory x s) = history (handleImageUpload x s)
       \<and> historyIndex (addImageToHistory x s) = historyIndex (handleImageUpload x s)
       \<and> addImageToHistory x s
           = (handleImageUpload x s)
               \<lparr> error := error s, editHotspot := editHotspot s,
                 displayHotspot := displayHotspot s, activeTab := activeTab s \<rparr>
       \<and> currentImage s = None
       \<and> history (handleGenerate r s) = [] \<and> error (handleGenerate r s) = Some ''No image loaded to edit.''
       \<and> history (handleApplyFilter r s) = []
       \<and> error (handleApplyFilter r s) = Some ''No image loaded to apply a filter to.''
       \<and> history (handleApplyAdjustment r s) = []
       \<and> error (handleApplyAdjustment r s) = Some ''No image loaded to apply an adjustment to.''"
  using assms
  by (simp add: addImageToHistory_def js_slice0_def Let_def handleImageUpload_def currentImage_def
        js_index_def handleGenerate_def handleApplyFilter_def handleApplyAdjustment_def)

text \<open>
  After a failed demo load the history is empty and the cursor \<open>-1\<close>: committing \<open>A\<close>
  gives the history \<open>[A]\<close> and the cursor 0 and keeps the error shown, and the retouch
  flow reports the missing image.
\<close>

theorem commit_on_empty_history_witness:
  "history demo_load_failed = [] \<and> historyIndex demo_load_failed = -1
   \<and> history (addImageToHistory (png ''A'') demo_load_failed) = [png ''A'']
   \<and> historyIndex (addImageToHistory (png ''A'') demo_load_failed) = 0
   \<and> error (addImageToHistory (png ''A'') demo_load_failed)
       = Some ''Failed to load the demo image. An unknown error occurred.''
   \<and> error (handleGenerate (Inr (png ''A'')) demo_load_failed) = Some ''No image loaded to edit.''"
proof -
  have h: "history demo_load_failed = []" "historyIndex demo_load_failed = -1"
    by simp_all
  note at_failed = commit_on_empty_history [OF h, of "png ''A''" "Inr (png ''A'')"]
  have hist: "history (addImageToHistory (png ''A'') demo_load_failed) = [png ''A'']"
    using at_failed by blast
  have idx: "historyIndex (addImageToHistory (png ''A'') demo_load_failed) = 0"
    using at_failed by blast
  have "addImageToHistory (png ''A'') demo_load_failed
          = (handleImageUpload (png ''A'') demo_load_failed)
              \<lparr> error := error demo_load_failed, editHotspot := editHotspot demo_load_failed,
                displayHotspot := displayHotspot demo_load_failed,
                activeTab := activeTab demo_load_failed \<rparr>"
    using at_failed by blast
  then have "error (addImageToHistory (png ''A'') demo_load_failed) = error demo_load_failed"
    by simp
  then have err: "error (addImageToHistory (png ''A'') demo_load_failed)
                    = Some ''Failed to load the demo image. An unknown error occurred.''"
    by simp
  have guard: "error (handleGenerate (Inr (png ''A'')) demo_load_failed) = Some ''No image loaded to edit.''"
    using at_failed by blast
  show ?thesis
    using h hist idx err guard by blast
qed

text \<open>
  The claim as stated has the commit behave exactly like loading the image: after a
  failed demo load the commit keeps the error that loading clears, so the two states
  differ.
\<close>

theorem commit_differs_from_reset:
  "history demo_load_failed = [] \<and> historyIndex demo_load_failed = -1
   \<and> error (addImageToHistory (png ''A'') demo_load_failed)
       = Some ''Failed to load the demo image. An unknown error occurred.''
   \<and> error (handleImageUpload (png ''A'') demo_load_failed) = None
   \<and> addImageToHistory (png ''A'') demo_load_failed \<noteq> handleImageUpload (png ''A'') demo_load_failed"
proof -
  have a: "error (addImageToHistory (png ''A'') demo_load_failed)
             = Some ''Failed to load the demo image. An unknown error occurred.''"
    by (simp add: addImageToHistory_def Let_def)
  have b: "error (handleImageUpload (png ''A'') demo_load_failed) = None"
    by (simp add: handleImageUpload_def)
  have "addImageToHistory (png ''A'') demo_load_failed \<noteq> handleImageUpload (png ''A'') demo_load_failed"
  proof
    assume "addImageToHistory (png ''A'') demo_load_failed = handleImageUpload (png ''A'') demo_load_failed"
    then have "error (addImageToHistory (png ''A'') demo_load_failed)
                 = error (handleImageUpload (png ''A'') demo_load_failed)"
      by simp
    with a b show False by simp
  qed
  with a b show ?thesis by simp
qed

end
